theory Spec2Isabelle
  imports Complex_Main "HOL-Library.Multiset"
begin

section \<open>Schwab diagonal spread scanner: the embedding\<close>

text \<open>
  The program is one Python script, \<^verbatim>\<open>Schwab_API_Diagonal_Spread_Scanner.py\<close>. It computes four
  dates, loops over a ticker list, performs two HTTP requests per ticker, walks each JSON
  answer for a \<^verbatim>\<open>"last"\<close> field, divides the two prices and appends a row to a table that is
  sorted at the end.

  Modelling decisions:
  \<^item> a parsed JSON body is a value of \<open>json\<close>; a Python dict is an association list in
    insertion order (what \<^verbatim>\<open>.items()\<close> walks), \<^verbatim>\<open>None\<close> is \<open>JNull\<close>;
  \<^item> a JSON integer is a Python int (\<open>JInt\<close>); a JSON number with a fraction or an
    exponent is a Python float (\<open>JNum\<close>), taken as an exact real: rounding, NaN and
    infinities of IEEE doubles are not modelled, the OverflowError of a division is;
  \<^item> every exception the script can raise is a value \<open>Inl e\<close> of \<open>py_error + 'a\<close>; the script
    has no \<^verbatim>\<open>try\<close>, so an exception ends the run;
  \<^item> \<^verbatim>\<open>requests.get\<close> is a parameter \<open>get\<close> from the URL to either an exception or a response;
  \<^item> the loop's effects are the fields of \<open>scan_state\<close>: the rows of \<^verbatim>\<open>results_df\<close>, the
    lines printed, and the URLs requested;
  \<^item> \<^verbatim>\<open>strftime\<close> and pandas' \<^verbatim>\<open>sort_values\<close> are library code and are parameters.
\<close>

subsection \<open>Python values and exceptions\<close>

datatype py_error =
  AttributeError | TypeError | KeyError | ZeroDivisionError | OverflowError
  | JSONDecodeError | ConnectionError

datatype json =
  JNull | JBool bool | JInt int | JNum real | JStr string | JArr "json list" | JObj "(string \<times> json) list"

text \<open>An entry of the ticker list: pandas yields strings, and numbers or NaN for other cells.\<close>

datatype entry = EStr string | EInt int | ENaN

text \<open>\<^verbatim>\<open>d.items()\<close>: only a dict has the method.\<close>

fun py_items :: "json \<Rightarrow> py_error + (string \<times> json) list" where
  "py_items (JObj kvs) = Inr kvs"
| "py_items _ = Inl AttributeError"

text \<open>\<^verbatim>\<open>for x in v\<close>: a list yields its elements, a dict its keys, a string its characters.\<close>

fun py_iter :: "json \<Rightarrow> py_error + json list" where
  "py_iter (JArr xs) = Inr xs"
| "py_iter (JObj kvs) = Inr (map (\<lambda>kv. JStr (fst kv)) kvs)"
| "py_iter (JStr s) = Inr (map (\<lambda>c. JStr [c]) s)"
| "py_iter _ = Inl TypeError"

fun starts_with :: "string \<Rightarrow> string \<Rightarrow> bool" where
  "starts_with [] s = True"
| "starts_with (p # ps) [] = False"
| "starts_with (p # ps) (c # cs) = (p = c \<and> starts_with ps cs)"

fun is_substring :: "string \<Rightarrow> string \<Rightarrow> bool" where
  "is_substring p [] = (p = [])"
| "is_substring p (c # cs) = (starts_with p (c # cs) \<or> is_substring p cs)"

text \<open>\<^verbatim>\<open>"last" in option\<close>: key membership for a dict, element membership for a list,
  substring test for a string, TypeError for anything else.\<close>

fun contains_last :: "json \<Rightarrow> py_error + bool" where
  "contains_last (JObj kvs) = Inr (''last'' \<in> set (map fst kvs))"
| "contains_last (JArr xs) = Inr (JStr ''last'' \<in> set xs)"
| "contains_last (JStr s) = Inr (is_substring ''last'' s)"
| "contains_last _ = Inl TypeError"

text \<open>\<^verbatim>\<open>option["last"]\<close>.\<close>

fun subscript_last :: "json \<Rightarrow> py_error + json" where
  "subscript_last (JObj kvs) =
     (case map_of kvs ''last'' of None \<Rightarrow> Inl KeyError | Some v \<Rightarrow> Inr v)"
| "subscript_last _ = Inl TypeError"

text \<open>Truth value of an object, as \<^verbatim>\<open>if x and y\<close> tests it.\<close>

fun py_truthy :: "json \<Rightarrow> bool" where
  "py_truthy JNull = False"
| "py_truthy (JBool b) = b"
| "py_truthy (JInt n) = (n \<noteq> 0)"
| "py_truthy (JNum x) = (x \<noteq> 0)"
| "py_truthy (JStr s) = (s \<noteq> [])"
| "py_truthy (JArr xs) = (xs \<noteq> [])"
| "py_truthy (JObj kvs) = (kvs \<noteq> [])"

text \<open>The operands of arithmetic: an int (a bool counts as one) or a float.\<close>

datatype py_num = PInt int | PFloat real

fun py_number :: "json \<Rightarrow> py_num option" where
  "py_number (JInt n) = Some (PInt n)"
| "py_number (JBool b) = Some (PInt (if b then 1 else 0))"
| "py_number (JNum x) = Some (PFloat x)"
| "py_number _ = None"

text \<open>
  The largest finite double is \<open>2 ^ 1024 - 2 ^ 971\<close>. A real rounds (to nearest, ties to
  even) past it exactly when its magnitude reaches \<open>2 ^ 1024 - 2 ^ 970\<close>; Python then raises
  OverflowError, both when it converts an int to a float and when it divides two ints.
\<close>

definition double_overflow :: "real \<Rightarrow> bool" where
  "double_overflow x = (2 ^ 1024 - 2 ^ 970 \<le> \<bar>x\<bar>)"

text \<open>The conversion of an operand to a float.\<close>

fun to_float :: "py_num \<Rightarrow> py_error + real" where
  "to_float (PFloat x) = Inr x"
| "to_float (PInt n) = (if double_overflow (of_int n) then Inl OverflowError else Inr (of_int n))"

text \<open>
  \<^verbatim>\<open>a / b\<close> (true division). Two ints are divided exactly and the quotient is rounded;
  otherwise both operands are converted to float first, the left one first.
\<close>

fun truediv :: "py_num \<Rightarrow> py_num \<Rightarrow> py_error + real" where
  "truediv (PInt m) (PInt n) =
     (if n = 0 then Inl ZeroDivisionError
      else if double_overflow (of_int m / of_int n) then Inl OverflowError
      else Inr (of_int m / of_int n))"
| "truediv a b =
     (case to_float a of
        Inl e \<Rightarrow> Inl e
      | Inr x \<Rightarrow>
          (case to_float b of
             Inl e \<Rightarrow> Inl e
           | Inr y \<Rightarrow> if y = 0 then Inl ZeroDivisionError else Inr (x / y)))"

definition py_truediv :: "json \<Rightarrow> json \<Rightarrow> py_error + real" where
  "py_truediv a b =
     (case py_number a of
        None \<Rightarrow> Inl TypeError
      | Some x \<Rightarrow>
          (case py_number b of
             None \<Rightarrow> Inl TypeError
           | Some y \<Rightarrow> truediv x y))"

text \<open>\<^verbatim>\<open>str.upper()\<close> on ASCII text (a \<open>char\<close> is a byte; other scripts are not modelled).\<close>

definition upper_char :: "char \<Rightarrow> char" where
  "upper_char c =
     (let n = (of_char c :: nat) in if 97 \<le> n \<and> n \<le> 122 then char_of (n - 32) else c)"

definition upper :: "string \<Rightarrow> string" where
  "upper s = map upper_char s"

subsection \<open>Lines 29-38: the date ranges\<close>

text \<open>
  A date is its proleptic Gregorian ordinal (\<^verbatim>\<open>date.toordinal()\<close>): 1 is 0001-01-01 and
  3652059 is 9999-12-31. \<^verbatim>\<open>datetime + timedelta(days=n)\<close> raises OverflowError outside that
  range. The script reads the clock once per date; the model takes one reference day.
\<close>

definition max_ordinal :: int where
  "max_ordinal = 3652059"

definition plus_days :: "int \<Rightarrow> int \<Rightarrow> py_error + int" where
  "plus_days today n =
     (if 1 \<le> today + n \<and> today + n \<le> max_ordinal then Inr (today + n) else Inl OverflowError)"

text \<open>The four dates in the order the script computes them, as (near window, far window).\<close>

definition date_ranges :: "int \<Rightarrow> py_error + ((int \<times> int) \<times> (int \<times> int))" where
  "date_ranges today =
     (case plus_days today 6 of Inl e \<Rightarrow> Inl e | Inr w1 \<Rightarrow>
       (case plus_days today 11 of Inl e \<Rightarrow> Inl e | Inr w2 \<Rightarrow>
         (case plus_days today 330 of Inl e \<Rightarrow> Inl e | Inr y1 \<Rightarrow>
           (case plus_days today 600 of Inl e \<Rightarrow> Inl e | Inr y2 \<Rightarrow>
              Inr ((w1, w2), (y1, y2))))))"

text \<open>The four formatted strings that the URLs embed.\<close>

record dates =
  one_week_date :: string
  one_week_date2 :: string
  one_year_date :: string
  one_year_date2 :: string

definition format_dates :: "(int \<Rightarrow> string) \<Rightarrow> (int \<times> int) \<times> (int \<times> int) \<Rightarrow> dates" where
  "format_dates strftime w =
     \<lparr>one_week_date = strftime (fst (fst w)), one_week_date2 = strftime (snd (fst w)),
      one_year_date = strftime (fst (snd w)), one_year_date2 = strftime (snd (snd w))\<rparr>"

subsection \<open>Lines 76-78: the request URLs\<close>

definition short_term_URL :: "dates \<Rightarrow> string \<Rightarrow> string" where
  "short_term_URL d ticker =
     ''https://api.schwabapi.com/marketdata/v1/chains?symbol='' @ ticker
     @ ''&contractType=CALL&strikeCount=1&fromDate='' @ one_week_date d
     @ ''&toDate='' @ one_week_date2 d"

definition long_term_URL :: "dates \<Rightarrow> string \<Rightarrow> string" where
  "long_term_URL d ticker =
     ''https://api.schwabapi.com/marketdata/v1/chains?symbol='' @ ticker
     @ ''&contractType=CALL&strikeCount=1&fromDate='' @ one_year_date d
     @ ''&toDate='' @ one_year_date2 d"

subsection \<open>Lines 89-98 and 109-118: the search for the last price\<close>

text \<open>
  The innermost loop: the first record that has the key sets the price and leaves this loop
  only. \<open>price\<close> is the variable \<^verbatim>\<open>week_last_price\<close> (or \<^verbatim>\<open>year_last_price\<close>) on entry.
\<close>

fun options_loop :: "json \<Rightarrow> json list \<Rightarrow> py_error + json" where
  "options_loop price [] = Inr price"
| "options_loop price (option # rest) =
     (case contains_last option of
        Inl e \<Rightarrow> Inl e
      | Inr True \<Rightarrow> subscript_last option
      | Inr False \<Rightarrow> options_loop price rest)"

text \<open>The loop over the strikes of one expiration; it has no exit of its own.\<close>

fun strikes_loop :: "json \<Rightarrow> (string \<times> json) list \<Rightarrow> py_error + json" where
  "strikes_loop price [] = Inr price"
| "strikes_loop price ((strike_key, options_list) # rest) =
     (case py_iter options_list of
        Inl e \<Rightarrow> Inl e
      | Inr options \<Rightarrow>
          (case options_loop price options of
             Inl e \<Rightarrow> Inl e
           | Inr price' \<Rightarrow> strikes_loop price' rest))"

text \<open>The loop over the expirations; it stops once the price is not \<^verbatim>\<open>None\<close>.\<close>

fun exp_loop :: "json \<Rightarrow> (string \<times> json) list \<Rightarrow> py_error + json" where
  "exp_loop price [] = Inr price"
| "exp_loop price ((exp_date_key, strikes) # rest) =
     (case py_items strikes of
        Inl e \<Rightarrow> Inl e
      | Inr ss \<Rightarrow>
          (case strikes_loop price ss of
             Inl e \<Rightarrow> Inl e
           | Inr price' \<Rightarrow> if price' \<noteq> JNull then Inr price' else exp_loop price' rest))"

text \<open>\<^verbatim>\<open>response_data.get("callExpDateMap", {})\<close> followed by the three loops.\<close>

definition extract_last_price :: "json \<Rightarrow> py_error + json" where
  "extract_last_price response_data =
     (case response_data of
        JObj kvs \<Rightarrow>
          (case py_items (case map_of kvs ''callExpDateMap'' of None \<Rightarrow> JObj [] | Some m \<Rightarrow> m) of
             Inl e \<Rightarrow> Inl e
           | Inr call_exp_date_map \<Rightarrow> exp_loop JNull call_exp_date_map)
      | _ \<Rightarrow> Inl AttributeError)"

subsection \<open>Lines 81-86 and 101-106: one request\<close>

text \<open>\<open>body\<close> is what \<^verbatim>\<open>response.json()\<close> returns, \<open>None\<close> when it raises.\<close>

record response =
  status_code :: int
  body :: "json option"

datatype fetched = Failed int | Price json

text \<open>
  The request, the status test and the search, as the script writes them twice (once per
  window): \<open>Failed code\<close> is the branch that prints and continues.
\<close>

definition fetch_last_price :: "(string \<Rightarrow> py_error + response) \<Rightarrow> string \<Rightarrow> py_error + fetched" where
  "fetch_last_price get url =
     (case get url of
        Inl e \<Rightarrow> Inl e
      | Inr response \<Rightarrow>
          if status_code response = 200 then
            (case body response of
               None \<Rightarrow> Inl JSONDecodeError
             | Some response_data \<Rightarrow>
                 (case extract_last_price response_data of
                    Inl e \<Rightarrow> Inl e
                  | Inr price \<Rightarrow> Inr (Price price)))
          else Inr (Failed (status_code response)))"

subsection \<open>Lines 120-133: the ratio and the row\<close>

text \<open>\<open>None\<close> is the \<^verbatim>\<open>else\<close> branch, where no ratio is computed.\<close>

definition spread_ratio :: "json \<Rightarrow> json \<Rightarrow> py_error + real option" where
  "spread_ratio week_last_price year_last_price =
     (if py_truthy week_last_price \<and> py_truthy year_last_price then
        (case py_truediv year_last_price week_last_price of
           Inl e \<Rightarrow> Inl e
         | Inr r \<Rightarrow> Inr (Some r))
      else Inr None)"

record row =
  Ticker :: string
  Week_Last_Price :: json
  Year_Last_Price :: json
  Spread_Ratio :: real

datatype message =
  Short_term_failed string int | Long_term_failed string int | Could_not_calculate string

fun message_ticker :: "message \<Rightarrow> string" where
  "message_ticker (Short_term_failed t c) = t"
| "message_ticker (Long_term_failed t c) = t"
| "message_ticker (Could_not_calculate t) = t"

record scan_state =
  results_df :: "row list"
  printed :: "message list"
  requested :: "string list"

definition init_state :: scan_state where
  "init_state = \<lparr>results_df = [], printed = [], requested = []\<rparr>"

subsection \<open>Lines 69-133: the loop over the tickers\<close>

definition say :: "message \<Rightarrow> scan_state \<Rightarrow> scan_state" where
  "say m st = st\<lparr>printed := printed st @ [m]\<rparr>"

definition request :: "string \<Rightarrow> scan_state \<Rightarrow> scan_state" where
  "request url st = st\<lparr>requested := requested st @ [url]\<rparr>"

text \<open>The body of the loop for a string entry, already in upper case.\<close>

definition scan_ticker ::
  "(string \<Rightarrow> py_error + response) \<Rightarrow> dates \<Rightarrow> scan_state \<Rightarrow> string \<Rightarrow> py_error + scan_state" where
  "scan_ticker get d st ticker =
     (case fetch_last_price get (short_term_URL d ticker) of
        Inl e \<Rightarrow> Inl e
      | Inr (Failed code) \<Rightarrow>
          Inr (say (Short_term_failed ticker code) (request (short_term_URL d ticker) st))
      | Inr (Price week_last_price) \<Rightarrow>
          (case fetch_last_price get (long_term_URL d ticker) of
             Inl e \<Rightarrow> Inl e
           | Inr (Failed code) \<Rightarrow>
               Inr (say (Long_term_failed ticker code)
                     (request (long_term_URL d ticker) (request (short_term_URL d ticker) st)))
           | Inr (Price year_last_price) \<Rightarrow>
               (case spread_ratio week_last_price year_last_price of
                  Inl e \<Rightarrow> Inl e
                | Inr None \<Rightarrow>
                    Inr (say (Could_not_calculate ticker)
                          (request (long_term_URL d ticker) (request (short_term_URL d ticker) st)))
                | Inr (Some r) \<Rightarrow>
                    Inr ((request (long_term_URL d ticker) (request (short_term_URL d ticker) st))
                          \<lparr>results_df := results_df st @
                             [\<lparr>Ticker = ticker, Week_Last_Price = week_last_price,
                               Year_Last_Price = year_last_price, Spread_Ratio = r\<rparr>]\<rparr>))))"

text \<open>Lines 71-74: a non-string entry is passed over, a string is put in upper case.\<close>

fun loop_body ::
  "(string \<Rightarrow> py_error + response) \<Rightarrow> dates \<Rightarrow> scan_state \<Rightarrow> entry \<Rightarrow> py_error + scan_state" where
  "loop_body get d st (EStr s) = scan_ticker get d st (upper s)"
| "loop_body get d st _ = Inr st"

fun tickers_loop ::
  "(string \<Rightarrow> py_error + response) \<Rightarrow> dates \<Rightarrow> scan_state \<Rightarrow> entry list \<Rightarrow> py_error + scan_state" where
  "tickers_loop get d st [] = Inr st"
| "tickers_loop get d st (ticker # rest) =
     (case loop_body get d st ticker of
        Inl e \<Rightarrow> Inl e
      | Inr st' \<Rightarrow> tickers_loop get d st' rest)"

subsection \<open>Line 136 and the whole run\<close>

text \<open>
  \<open>sort_values\<close> stands for \<^verbatim>\<open>DataFrame.sort_values(by='Spread_Ratio', ascending=True)\<close>.
  The run computes the dates, scans, and sorts the table; the first exception ends it.
  The ticker list is an input (\<^verbatim>\<open>fetch_all_tickers\<close> only downloads it), and the printing
  and the CSV export of the sorted table (lines 138-143) are left out.
\<close>

definition sorted_results_df ::
  "(int \<Rightarrow> string) \<Rightarrow> (string \<Rightarrow> py_error + response) \<Rightarrow> (row list \<Rightarrow> row list) \<Rightarrow> int
     \<Rightarrow> entry list \<Rightarrow> py_error + row list" where
  "sorted_results_df strftime get sort_values today tickers =
     (case date_ranges today of
        Inl e \<Rightarrow> Inl e
      | Inr w \<Rightarrow>
          (case tickers_loop get (format_dates strftime w) init_state tickers of
             Inl e \<Rightarrow> Inl e
           | Inr st \<Rightarrow> Inr (sort_values (results_df st))))"

subsection \<open>Shapes of a response body\<close>

text \<open>
  The shape the provider documents: expirations map to strikes, strikes to a list of
  records, and a record is a dict. \<open>shaped P\<close> asks \<open>P\<close> of every record.
\<close>

definition is_record :: "json \<Rightarrow> bool" where
  "is_record r = (case r of JObj flds \<Rightarrow> True | _ \<Rightarrow> False)"

definition options_ok :: "(json \<Rightarrow> bool) \<Rightarrow> json \<Rightarrow> bool" where
  "options_ok P options_list = (case options_list of JArr rs \<Rightarrow> list_all P rs | _ \<Rightarrow> False)"

definition strikes_ok :: "(json \<Rightarrow> bool) \<Rightarrow> json \<Rightarrow> bool" where
  "strikes_ok P strikes =
     (case strikes of JObj kvs \<Rightarrow> list_all (\<lambda>kv. options_ok P (snd kv)) kvs | _ \<Rightarrow> False)"

definition chain_ok :: "(json \<Rightarrow> bool) \<Rightarrow> json \<Rightarrow> bool" where
  "chain_ok P m =
     (case m of JObj kvs \<Rightarrow> list_all (\<lambda>kv. strikes_ok P (snd kv)) kvs | _ \<Rightarrow> False)"

definition shaped :: "(json \<Rightarrow> bool) \<Rightarrow> json \<Rightarrow> bool" where
  "shaped P response_data =
     (case response_data of
        JObj kvs \<Rightarrow> (case map_of kvs ''callExpDateMap'' of None \<Rightarrow> True | Some m \<Rightarrow> chain_ok P m)
      | _ \<Rightarrow> False)"

text \<open>A body with an expiration without strikes, a strike without records and records without price.\<close>

definition odd_chain :: json where
  "odd_chain = JObj [(''symbol'', JStr ''XYZ''), (''callExpDateMap'', JObj
       [(''2024-10-11:7'', JObj []),
        (''2024-10-18:14'', JObj [(''100.0'', JArr []), (''105.0'', JArr [JObj [(''bid'', JNum 1)]])]),
        (''2024-10-25:21'', JObj [(''100.0'', JArr [JObj [(''bid'', JNum 1)], JObj [(''last'', JNum 3)]])])])]"

subsection \<open>Outcomes of a ticker\<close>

text \<open>The string entries of the list, in upper case, in order.\<close>

fun string_tickers :: "entry list \<Rightarrow> string list" where
  "string_tickers [] = []"
| "string_tickers (EStr s # rest) = upper s # string_tickers rest"
| "string_tickers (_ # rest) = string_tickers rest"

fun is_string :: "entry \<Rightarrow> bool" where
  "is_string (EStr s) = True"
| "is_string _ = False"

text \<open>Both requests of a ticker answered with status 200, and both prices found are true.\<close>

definition usable :: "(string \<Rightarrow> py_error + response) \<Rightarrow> dates \<Rightarrow> string \<Rightarrow> bool" where
  "usable get d ticker =
     (case fetch_last_price get (short_term_URL d ticker) of
        Inr (Price w) \<Rightarrow>
          (case fetch_last_price get (long_term_URL d ticker) of
             Inr (Price y) \<Rightarrow> py_truthy w \<and> py_truthy y
           | _ \<Rightarrow> False)
      | _ \<Rightarrow> False)"

text \<open>A row holds the two prices found for its ticker and their quotient.\<close>

definition row_sound :: "(string \<Rightarrow> py_error + response) \<Rightarrow> dates \<Rightarrow> row \<Rightarrow> bool" where
  "row_sound get d r =
     (fetch_last_price get (short_term_URL d (Ticker r)) = Inr (Price (Week_Last_Price r))
      \<and> fetch_last_price get (long_term_URL d (Ticker r)) = Inr (Price (Year_Last_Price r))
      \<and> py_truthy (Week_Last_Price r) \<and> py_truthy (Year_Last_Price r)
      \<and> py_truediv (Year_Last_Price r) (Week_Last_Price r) = Inr (Spread_Ratio r))"

subsection \<open>Sample inputs\<close>

definition demo_dates :: dates where
  "demo_dates = \<lparr>one_week_date = ''2024-10-10'', one_week_date2 = ''2024-10-15'',
                 one_year_date = ''2025-08-30'', one_year_date2 = ''2026-05-27''\<rparr>"

definition demo_strftime :: "int \<Rightarrow> string" where
  "demo_strftime n =
     (if n = 739169 then ''2024-10-10'' else if n = 739174 then ''2024-10-15''
      else if n = 739493 then ''2025-08-30'' else ''2026-05-27'')"

text \<open>A body with one expiration, one strike and one record whose price is \<open>v\<close>.\<close>

definition priced :: "json \<Rightarrow> json" where
  "priced v = JObj [(''callExpDateMap'',
       JObj [(''2024-10-11:7'', JObj [(''100.0'', JArr [JObj [(''last'', v)]])])])]"

definition answer :: "json \<Rightarrow> py_error + response" where
  "answer j = Inr \<lparr>status_code = 200, body = Some j\<rparr>"

definition flat_get :: "string \<Rightarrow> py_error + response" where
  "flat_get url = answer (priced (JNum 2))"

definition mixed_tickers :: "entry list" where
  "mixed_tickers = [EStr ''aapl'', EInt 123, EStr ''msft'']"

text \<open>Near price -2 and far price 10 for every ticker.\<close>

definition negative_get :: "string \<Rightarrow> py_error + response" where
  "negative_get url =
     (if url = short_term_URL demo_dates ''A'' then answer (priced (JNum (- 2)))
      else answer (priced (JNum 10)))"

text \<open>The near answer for XYZ has status 200 and a null expiration mapping.\<close>

definition broken_get :: "string \<Rightarrow> py_error + response" where
  "broken_get url =
     (if url = short_term_URL demo_dates ''XYZ''
      then answer (JObj [(''callExpDateMap'', JNull)])
      else answer (priced (JNum 2)))"

text \<open>The near request for XYZ is refused with status 404.\<close>

definition refused_get :: "string \<Rightarrow> py_error + response" where
  "refused_get url =
     (if url = short_term_URL demo_dates ''XYZ''
      then Inr \<lparr>status_code = 404, body = None\<rparr>
      else answer (priced (JNum 2)))"

text \<open>The far request for XYZ is refused with status 404.\<close>

definition far_refused_get :: "string \<Rightarrow> py_error + response" where
  "far_refused_get url =
     (if url = long_term_URL demo_dates ''XYZ''
      then Inr \<lparr>status_code = 404, body = None\<rparr>
      else answer (priced (JNum 2)))"

text \<open>The near answer for XYZ has status 200 and no expiration mapping, so no price.\<close>

definition unpriced_get :: "string \<Rightarrow> py_error + response" where
  "unpriced_get url =
     (if url = short_term_URL demo_dates ''XYZ'' then answer (JObj [])
      else answer (priced (JNum 2)))"

text \<open>The tickers of the rows a scan leaves, or the exception that ended it.\<close>

definition recorded :: "py_error + scan_state \<Rightarrow> py_error + string list" where
  "recorded res = (case res of Inl e \<Rightarrow> Inl e | Inr st \<Rightarrow> Inr (map Ticker (results_df st)))"

definition reported :: "py_error + scan_state \<Rightarrow> py_error + message list" where
  "reported res = (case res of Inl e \<Rightarrow> Inl e | Inr st \<Rightarrow> Inr (printed st))"

text \<open>As \<open>flat_get\<close> on every URL of the scanner, and unreachable elsewhere.\<close>

definition other_get :: "string \<Rightarrow> py_error + response" where
  "other_get url = (if url = ''ftp://elsewhere'' then Inl ConnectionError else flat_get url)"

section \<open>The claims\<close>

subsection \<open>The date ranges\<close>

text \<open>
  C5. For a reference day whose four shifted dates are representable, the near range is
  (today + 6, today + 11) and the far range is (today + 330, today + 600); each range has
  its start no later than its end, and the far range starts strictly after the near range
  ends.
\<close>

theorem date_ranges_windows:
  assumes "1 \<le> today" and "today + 600 \<le> max_ordinal"
  shows "\<exists>near far. date_ranges today = Inr (near, far)
           \<and> near = (today + 6, today + 11) \<and> far = (today + 330, today + 600)
           \<and> fst near \<le> snd near \<and> fst far \<le> snd far \<and> snd near < fst far"
  using assms by (simp add: date_ranges_def plus_days_def)

theorem date_ranges_windows_witness:
  "(1::int) \<le> 739163 \<and> 739163 + 600 \<le> max_ordinal
   \<and> date_ranges 739163 = Inr ((739169, 739174), (739493, 739763))"
proof -
  have a: "(1::int) \<le> 739163" by simp
  have b: "(739163::int) + 600 \<le> max_ordinal" by (simp add: max_ordinal_def)
  from date_ranges_windows [OF a b] a b show ?thesis by auto
qed

subsection \<open>The ratio\<close>





subsection \<open>The search for the last price\<close>

text \<open>
  C1 at a chain with one expiration and two strikes, each with one record that has the
  price: the record met first carries 1, and the search returns 2, the price of the
  later strike.
\<close>

theorem extract_last_price_later_strike:
  "extract_last_price
     (JObj [(''callExpDateMap'', JObj [(''2024-10-11:7'',
        JObj [(''100.0'', JArr [JObj [(''last'', JNum 1)]]),
              (''105.0'', JArr [JObj [(''last'', JNum 2)]])])])])
   = Inr (JNum 2)"
  by (simp add: extract_last_price_def)

text \<open>Records without the key are passed over.\<close>

lemma options_loop_skip:
  "\<forall>option\<in>set pre. contains_last option = Inr False \<Longrightarrow>
   options_loop price (pre @ rest) = options_loop price rest"
  by (induction pre) simp_all

text \<open>
  On a shaped body no loop raises, and the price each loop returns is the initial one or
  the value of a record's price field.
\<close>

lemma options_loop_inv:
  assumes "list_all P rs" and "Q price"
    and rec: "\<And>r. P r \<Longrightarrow> is_record r"
    and val: "\<And>flds v. P (JObj flds) \<Longrightarrow> map_of flds ''last'' = Some v \<Longrightarrow> Q v"
  shows "\<exists>p. options_loop price rs = Inr p \<and> Q p"
  using assms(1)
proof (induction rs)
  case Nil
  then show ?case using assms(2) by simp
next
  case (Cons r rs)
  then have Pr: "P r" and rest: "list_all P rs" by simp_all
  from rec [OF Pr] obtain flds where r: "r = JObj flds"
    by (auto simp: is_record_def split: json.splits)
  show ?case
  proof (cases "''last'' \<in> set (map fst flds)")
    case True
    then obtain v where v: "map_of flds ''last'' = Some v"
      by (metis map_of_eq_None_iff not_Some_eq set_map)
    with val Pr r have "Q v" by blast
    with True v r show ?thesis by simp
  next
    case False
    with Cons.IH [OF rest] r show ?thesis by simp
  qed
qed

lemma strikes_loop_inv:
  assumes "list_all (\<lambda>kv. options_ok P (snd kv)) ss" and "Q price"
    and rec: "\<And>r. P r \<Longrightarrow> is_record r"
    and val: "\<And>flds v. P (JObj flds) \<Longrightarrow> map_of flds ''last'' = Some v \<Longrightarrow> Q v"
  shows "\<exists>p. strikes_loop price ss = Inr p \<and> Q p"
  using assms(1,2)
proof (induction ss arbitrary: price)
  case Nil
  then show ?case by simp
next
  case (Cons kv ss)
  obtain k ol where kv: "kv = (k, ol)" by (cases kv)
  from Cons.prems kv obtain rs where ol: "ol = JArr rs" and rs: "list_all P rs"
    by (auto simp: options_ok_def split: json.splits)
  have "\<exists>p. options_loop price rs = Inr p \<and> Q p"
    by (rule options_loop_inv [where P = P and Q = Q, OF rs Cons.prems(2)]) (erule rec, erule val, assumption)
  then obtain p where p: "options_loop price rs = Inr p" "Q p" by blast
  from Cons.prems have "list_all (\<lambda>kv. options_ok P (snd kv)) ss" by simp
  from Cons.IH [OF this p(2)] p(1) kv ol show ?case by simp
qed

lemma exp_loop_inv:
  assumes "list_all (\<lambda>kv. strikes_ok P (snd kv)) es" and "Q price"
    and rec: "\<And>r. P r \<Longrightarrow> is_record r"
    and val: "\<And>flds v. P (JObj flds) \<Longrightarrow> map_of flds ''last'' = Some v \<Longrightarrow> Q v"
  shows "\<exists>p. exp_loop price es = Inr p \<and> Q p"
  using assms(1,2)
proof (induction es arbitrary: price)
  case Nil
  then show ?case by simp
next
  case (Cons kv es)
  obtain k strikes where kv: "kv = (k, strikes)" by (cases kv)
  from Cons.prems kv obtain ss where s: "strikes = JObj ss"
    and ss: "list_all (\<lambda>kv. options_ok P (snd kv)) ss"
    by (auto simp: strikes_ok_def split: json.splits)
  have "\<exists>p. strikes_loop price ss = Inr p \<and> Q p"
    by (rule strikes_loop_inv [where P = P and Q = Q, OF ss Cons.prems(2)]) (erule rec, erule val, assumption)
  then obtain p where p: "strikes_loop price ss = Inr p" "Q p" by blast
  from Cons.prems have "list_all (\<lambda>kv. strikes_ok P (snd kv)) es" by simp
  from Cons.IH [OF this p(2)] p kv s show ?case by auto
qed

lemma extract_last_price_inv:
  assumes "shaped P response_data" and "Q JNull"
    and rec: "\<And>r. P r \<Longrightarrow> is_record r"
    and val: "\<And>flds v. P (JObj flds) \<Longrightarrow> map_of flds ''last'' = Some v \<Longrightarrow> Q v"
  shows "\<exists>p. extract_last_price response_data = Inr p \<and> Q p"
proof -
  from assms(1) obtain kvs where r: "response_data = JObj kvs"
    by (auto simp: shaped_def split: json.splits)
  show ?thesis
  proof (cases "map_of kvs ''callExpDateMap''")
    case None
    with r assms(2) show ?thesis by (simp add: extract_last_price_def)
  next
    case (Some m)
    with assms(1) r obtain es where m: "m = JObj es"
      and es: "list_all (\<lambda>kv. strikes_ok P (snd kv)) es"
      by (auto simp: shaped_def chain_ok_def split: json.splits)
    have "\<exists>p. exp_loop JNull es = Inr p \<and> Q p"
      by (rule exp_loop_inv [where P = P and Q = Q, OF es assms(2)]) (erule rec, erule val, assumption)
    with Some r m show ?thesis by (simp add: extract_last_price_def)
  qed
qed

text \<open>
  C6. On every body of the documented shape the search returns a value and raises nothing.
  A missing or empty expiration mapping gives the absent price; an expiration without
  strikes, a strike without records and a record without the price field make the search go
  on with what follows.
\<close>

theorem extract_last_price_total:
  "(shaped is_record response_data \<longrightarrow> (\<exists>price. extract_last_price response_data = Inr price))
   \<and> (map_of kvs ''callExpDateMap'' = None \<longrightarrow> extract_last_price (JObj kvs) = Inr JNull)
   \<and> (map_of kvs ''callExpDateMap'' = Some (JObj []) \<longrightarrow> extract_last_price (JObj kvs) = Inr JNull)
   \<and> exp_loop JNull ((exp_date_key, JObj []) # exps) = exp_loop JNull exps
   \<and> strikes_loop price ((strike_key, JArr []) # strikes) = strikes_loop price strikes
   \<and> (''last'' \<notin> set (map fst flds)
        \<longrightarrow> options_loop price (JObj flds # options) = options_loop price options)"
proof -
  have "\<exists>p. extract_last_price response_data = Inr p \<and> True" if "shaped is_record response_data"
    by (rule extract_last_price_inv [where P = is_record and Q = "\<lambda>v. True", OF that]) simp_all
  then show ?thesis by (simp add: extract_last_price_def)
qed

theorem extract_last_price_total_witness:
  "shaped is_record odd_chain \<and> extract_last_price odd_chain = Inr (JNum 3)
   \<and> map_of [(''symbol'', JStr ''XYZ'')] ''callExpDateMap'' = None
   \<and> extract_last_price (JObj [(''symbol'', JStr ''XYZ'')]) = Inr JNull
   \<and> map_of [(''callExpDateMap'', JObj [])] ''callExpDateMap'' = Some (JObj [])
   \<and> extract_last_price (JObj [(''callExpDateMap'', JObj [])]) = Inr JNull
   \<and> ''last'' \<notin> set (map fst [(''bid'', JNum 1)])
   \<and> options_loop JNull [JObj [(''bid'', JNum 1)], JObj [(''last'', JNum 3)]] = Inr (JNum 3)"
  using extract_last_price_total [of odd_chain "[(''symbol'', JStr ''XYZ'')]"]
    extract_last_price_total [of odd_chain "[(''callExpDateMap'', JObj [])]" "''e''" "[]" JNull "''k''" "[]"
       "[(''bid'', JNum 1)]" "[JObj [(''last'', JNum 3)]]"]
  by (simp add: odd_chain_def shaped_def chain_ok_def strikes_ok_def options_ok_def is_record_def
      extract_last_price_def)

text \<open>
  C9. When the first record of a strike that has the key holds \<open>None\<close>, the loop over the
  records ends there with \<open>None\<close>, whatever records follow; on a chain with that single
  strike the search returns the absent price even though a later record has a number.
\<close>

theorem options_loop_stops_at_null:
  assumes "\<forall>option\<in>set pre. contains_last option = Inr False"
    and "contains_last r = Inr True" and "subscript_last r = Inr JNull"
  shows "options_loop price (pre @ r # post) = Inr JNull
     \<and> extract_last_price
          (JObj [(''callExpDateMap'', JObj [(exp_date_key, JObj [(strike_key, JArr (pre @ r # post))])])])
        = Inr JNull"
proof -
  have "options_loop p (pre @ r # post) = Inr JNull" for p
    using assms by (simp add: options_loop_skip)
  then show ?thesis by (simp add: extract_last_price_def)
qed

theorem options_loop_stops_at_null_witness:
  "contains_last (JObj [(''bid'', JNum 1)]) = Inr False
   \<and> contains_last (JObj [(''last'', JNull)]) = Inr True
   \<and> subscript_last (JObj [(''last'', JNull)]) = Inr JNull
   \<and> extract_last_price
        (JObj [(''callExpDateMap'', JObj [(''2024-10-11:7'', JObj [(''100.0'',
           JArr [JObj [(''bid'', JNum 1)], JObj [(''last'', JNull)], JObj [(''last'', JNum 5)]])])])])
      = Inr JNull"
proof -
  have a: "\<forall>option\<in>set [JObj [(''bid'', JNum 1)]]. contains_last option = Inr False" by simp
  have b: "contains_last (JObj [(''last'', JNull)]) = Inr True" by simp
  have c: "subscript_last (JObj [(''last'', JNull)]) = Inr JNull" by simp
  from options_loop_stops_at_null [OF a b c, of JNull "[JObj [(''last'', JNum 5)]]" "''2024-10-11:7''" "''100.0''"]
    a b c show ?thesis by simp
qed

subsection \<open>The scan\<close>

lemma set_string_tickers: "set (string_tickers es) = {upper s |s. EStr s \<in> set es}"
  by (induction es rule: string_tickers.induct) auto

text \<open>
  What one ticker adds to the state when its step returns: one sound row if it is usable,
  one printed line if not, and requests for its own two URLs only.
\<close>

lemma scan_ticker_step:
  assumes "scan_ticker get d st t = Inr st'"
  shows "\<exists>new. results_df st' = results_df st @ new
           \<and> map Ticker new = (if usable get d t then [t] else [])
           \<and> (\<forall>r\<in>set new. row_sound get d r)
           \<and> map message_ticker (printed st')
               = map message_ticker (printed st) @ (if usable get d t then [] else [t])
           \<and> set (requested st')
               \<subseteq> set (requested st) \<union> {short_term_URL d t, long_term_URL d t}"
proof (cases "fetch_last_price get (short_term_URL d t)")
  case (Inl e)
  with assms show ?thesis by (simp add: scan_ticker_def)
next
  case near: (Inr f)
  show ?thesis
  proof (cases f)
    case (Failed code)
    with near have u: "\<not> usable get d t" by (simp add: usable_def)
    from near Failed assms
    have "st' = say (Short_term_failed t code) (request (short_term_URL d t) st)"
      by (simp add: scan_ticker_def)
    with u show ?thesis by (auto simp add: say_def request_def)
  next
    case (Price w)
    note w = near [unfolded Price]
    show ?thesis
    proof (cases "fetch_last_price get (long_term_URL d t)")
      case (Inl e)
      with w assms show ?thesis by (simp add: scan_ticker_def)
    next
      case far: (Inr g)
      show ?thesis
      proof (cases g)
        case (Failed code)
        with w far have u: "\<not> usable get d t" by (simp add: usable_def)
        from w far Failed assms
        have "st' = say (Long_term_failed t code)
                     (request (long_term_URL d t) (request (short_term_URL d t) st))"
          by (simp add: scan_ticker_def)
        with u show ?thesis by (auto simp add: say_def request_def)
      next
        case (Price y)
        note y = far [unfolded Price]
        have u: "usable get d t = (py_truthy w \<and> py_truthy y)"
          using w y by (simp add: usable_def)
        show ?thesis
        proof (cases "py_truthy w \<and> py_truthy y")
          case False
          then have "spread_ratio w y = Inr None" by (auto simp add: spread_ratio_def)
          with w y assms
          have "st' = say (Could_not_calculate t)
                       (request (long_term_URL d t) (request (short_term_URL d t) st))"
            by (simp add: scan_ticker_def)
          with u False show ?thesis by (auto simp add: say_def request_def)
        next
          case True
          show ?thesis
          proof (cases "py_truediv y w")
            case (Inl e)
            with True have "spread_ratio w y = Inl e" by (simp add: spread_ratio_def)
            with w y assms show ?thesis by (simp add: scan_ticker_def)
          next
            case (Inr q)
            with True have "spread_ratio w y = Inr (Some q)" by (simp add: spread_ratio_def)
            with w y assms
            have st': "st' = (request (long_term_URL d t) (request (short_term_URL d t) st))
                          \<lparr>results_df := results_df st @
                             [\<lparr>Ticker = t, Week_Last_Price = w,
                               Year_Last_Price = y, Spread_Ratio = q\<rparr>]\<rparr>"
              by (simp add: scan_ticker_def)
            have "row_sound get d \<lparr>Ticker = t, Week_Last_Price = w,
                               Year_Last_Price = y, Spread_Ratio = q\<rparr>"
              using w y True Inr by (simp add: row_sound_def)
            with st' u True show ?thesis by (auto simp add: request_def)
          qed
        qed
      qed
    qed
  qed
qed

lemma tickers_loop_step:
  assumes "tickers_loop get d st es = Inr st'"
  shows "\<exists>new. results_df st' = results_df st @ new
           \<and> map Ticker new = filter (usable get d) (string_tickers es)
           \<and> (\<forall>r\<in>set new. row_sound get d r)
           \<and> map message_ticker (printed st')
               = map message_ticker (printed st) @ filter (\<lambda>t. \<not> usable get d t) (string_tickers es)
           \<and> set (requested st')
               \<subseteq> set (requested st)
                 \<union> (\<Union>t\<in>set (string_tickers es). {short_term_URL d t, long_term_URL d t})"
  using assms
proof (induction es arbitrary: st)
  case Nil
  then show ?case by simp
next
  case (Cons e es)
  show ?case
  proof (cases e)
    case (EStr s)
    with Cons.prems obtain st1 where a: "scan_ticker get d st (upper s) = Inr st1"
      and b: "tickers_loop get d st1 es = Inr st'"
      by (auto split: sum.splits)
    from scan_ticker_step [OF a] obtain n1 where n1:
      "results_df st1 = results_df st @ n1"
      "map Ticker n1 = (if usable get d (upper s) then [upper s] else [])"
      "\<forall>r\<in>set n1. row_sound get d r"
      "map message_ticker (printed st1)
         = map message_ticker (printed st) @ (if usable get d (upper s) then [] else [upper s])"
      "set (requested st1)
         \<subseteq> set (requested st) \<union> {short_term_URL d (upper s), long_term_URL d (upper s)}"
      by blast
    from Cons.IH [OF b] obtain n2 where n2:
      "results_df st' = results_df st1 @ n2"
      "map Ticker n2 = filter (usable get d) (string_tickers es)"
      "\<forall>r\<in>set n2. row_sound get d r"
      "map message_ticker (printed st')
         = map message_ticker (printed st1) @ filter (\<lambda>t. \<not> usable get d t) (string_tickers es)"
      "set (requested st')
         \<subseteq> set (requested st1)
           \<union> (\<Union>t\<in>set (string_tickers es). {short_term_URL d t, long_term_URL d t})"
      by blast
    have 1: "results_df st' = results_df st @ (n1 @ n2)" using n1(1) n2(1) by simp
    have 2: "map Ticker (n1 @ n2) = filter (usable get d) (string_tickers (e # es))"
      using n1(2) n2(2) EStr by simp
    have 3: "\<forall>r\<in>set (n1 @ n2). row_sound get d r" using n1(3) n2(3) by auto
    have 4: "map message_ticker (printed st')
         = map message_ticker (printed st) @ filter (\<lambda>t. \<not> usable get d t) (string_tickers (e # es))"
      using n1(4) n2(4) EStr by simp
    have 5: "set (requested st')
               \<subseteq> set (requested st)
                 \<union> (\<Union>t\<in>set (string_tickers (e # es)). {short_term_URL d t, long_term_URL d t})"
      using n1(5) n2(5) EStr by auto
    from 1 2 3 4 5 show ?thesis by blast
  next
    case (EInt n)
    with Cons show ?thesis by simp
  next
    case ENaN
    with Cons show ?thesis by simp
  qed
qed

lemma tickers_loop_strings:
  "tickers_loop get d st (filter is_string es) = tickers_loop get d st es"
proof (induction es arbitrary: st)
  case Nil
  show ?case by simp
next
  case (Cons e es)
  then show ?case by (cases e) (simp_all split: sum.splits)
qed

text \<open>
  C7. An entry that is not a string leaves the state as it is and raises nothing, so a
  scan equals the scan of the string entries alone; and when a scan returns, every row
  carries the upper-case form of a string entry and every URL requested was built from
  the upper-case form of a string entry.
\<close>

theorem non_strings_skipped:
  "loop_body get d st (EInt n) = Inr st \<and> loop_body get d st ENaN = Inr st
   \<and> tickers_loop get d st (filter is_string tickers) = tickers_loop get d st tickers
   \<and> (tickers_loop get d init_state tickers = Inr st' \<longrightarrow>
        (\<forall>r\<in>set (results_df st'). \<exists>s. EStr s \<in> set tickers \<and> Ticker r = upper s)
        \<and> (\<forall>u\<in>set (requested st'). \<exists>s. EStr s \<in> set tickers
               \<and> (u = short_term_URL d (upper s) \<or> u = long_term_URL d (upper s))))"
proof -
  have "(\<forall>r\<in>set (results_df st'). \<exists>s. EStr s \<in> set tickers \<and> Ticker r = upper s)
        \<and> (\<forall>u\<in>set (requested st'). \<exists>s. EStr s \<in> set tickers
               \<and> (u = short_term_URL d (upper s) \<or> u = long_term_URL d (upper s)))"
    if run: "tickers_loop get d init_state tickers = Inr st'"
  proof -
    from tickers_loop_step [OF run] obtain new where new:
      "results_df st' = new" "map Ticker new = filter (usable get d) (string_tickers tickers)"
      and req: "set (requested st')
         \<subseteq> (\<Union>t\<in>set (string_tickers tickers). {short_term_URL d t, long_term_URL d t})"
      by (auto simp: init_state_def)
    have "Ticker r \<in> set (string_tickers tickers)" if "r \<in> set (results_df st')" for r
    proof -
      from that new(1) have "Ticker r \<in> set (map Ticker new)" by simp
      with new(2) show ?thesis by simp
    qed
    then have a: "\<forall>r\<in>set (results_df st'). \<exists>s. EStr s \<in> set tickers \<and> Ticker r = upper s"
      by (auto simp: set_string_tickers)
    from req have b: "\<forall>u\<in>set (requested st'). \<exists>s. EStr s \<in> set tickers
               \<and> (u = short_term_URL d (upper s) \<or> u = long_term_URL d (upper s))"
      by (auto simp: set_string_tickers)
    from a b show ?thesis by blast
  qed
  then show ?thesis by (simp add: tickers_loop_strings)
qed

theorem non_strings_skipped_witness:
  "\<exists>st. tickers_loop flat_get demo_dates init_state mixed_tickers = Inr st
      \<and> tickers_loop flat_get demo_dates init_state [EStr ''aapl'', EStr ''msft''] = Inr st
      \<and> map Ticker (results_df st) = [''AAPL'', ''MSFT'']
      \<and> (\<forall>r\<in>set (results_df st). \<exists>s. EStr s \<in> set mixed_tickers \<and> Ticker r = upper s)"
proof -
  have "recorded (tickers_loop flat_get demo_dates init_state mixed_tickers)
          = Inr [''AAPL'', ''MSFT'']"
    by code_simp
  then obtain st where st: "tickers_loop flat_get demo_dates init_state mixed_tickers = Inr st"
    "map Ticker (results_df st) = [''AAPL'', ''MSFT'']"
    by (cases "tickers_loop flat_get demo_dates init_state mixed_tickers")
       (auto simp: recorded_def)
  have f: "filter is_string mixed_tickers = [EStr ''aapl'', EStr ''msft'']"
    by (simp add: mixed_tickers_def)
  from non_strings_skipped [of flat_get demo_dates init_state 123 mixed_tickers st] st f
  show ?thesis by auto
qed

text \<open>
  C3, as stated, fails for a malformed body: the near answer for XYZ has status 200 and a
  null expiration mapping, the search raises AttributeError, and the scan ends before ABC,
  which scanned alone yields a row.
\<close>

theorem malformed_body_ends_scan_counterexample:
  "tickers_loop broken_get demo_dates init_state [EStr ''xyz'', EStr ''abc''] = Inl AttributeError
   \<and> recorded (tickers_loop broken_get demo_dates init_state [EStr ''abc'']) = Inr [''ABC'']"
  by code_simp

lemma loop_step:
  "loop_body get d st e = Inr st' \<Longrightarrow> tickers_loop get d st (e # rest) = tickers_loop get d st' rest"
  by simp

text \<open>
  C3, amended. A ticker whose near request is answered with a status other than 200, or
  whose far request is after a near price was found, or whose two requests succeed and
  give a price that is absent or zero, does not interrupt the scan: from any state and
  before any later tickers, the scan goes on with the rest of the list from the state that
  has one more request or two and one more printed line for that ticker. Printing and
  requesting leave the rows as they are, so no row is recorded for it.
\<close>

theorem skipped_ticker_isolated:
  "(get (short_term_URL d (upper s)) = Inr r \<and> status_code r \<noteq> 200 \<longrightarrow>
      tickers_loop get d st (EStr s # rest)
        = tickers_loop get d
            (say (Short_term_failed (upper s) (status_code r))
              (request (short_term_URL d (upper s)) st)) rest)
   \<and> (fetch_last_price get (short_term_URL d (upper s)) = Inr (Price w)
        \<and> get (long_term_URL d (upper s)) = Inr r \<and> status_code r \<noteq> 200 \<longrightarrow>
      tickers_loop get d st (EStr s # rest)
        = tickers_loop get d
            (say (Long_term_failed (upper s) (status_code r))
              (request (long_term_URL d (upper s)) (request (short_term_URL d (upper s)) st))) rest)
   \<and> (fetch_last_price get (short_term_URL d (upper s)) = Inr (Price w)
        \<and> fetch_last_price get (long_term_URL d (upper s)) = Inr (Price y)
        \<and> \<not> (py_truthy w \<and> py_truthy y) \<longrightarrow>
      tickers_loop get d st (EStr s # rest)
        = tickers_loop get d
            (say (Could_not_calculate (upper s))
              (request (long_term_URL d (upper s)) (request (short_term_URL d (upper s)) st))) rest)
   \<and> results_df (say m (request u (request v st))) = results_df st
   \<and> results_df (say m (request u st)) = results_df st
   \<and> printed (say m (request u (request v st))) = printed st @ [m]
   \<and> printed (say m (request u st)) = printed st @ [m]"
proof -
  have a: "tickers_loop get d st (EStr s # rest)
        = tickers_loop get d
            (say (Short_term_failed (upper s) (status_code r))
              (request (short_term_URL d (upper s)) st)) rest"
    if "get (short_term_URL d (upper s)) = Inr r" "status_code r \<noteq> 200"
  proof (rule loop_step)
    from that have "fetch_last_price get (short_term_URL d (upper s)) = Inr (Failed (status_code r))"
      by (simp add: fetch_last_price_def)
    then show "loop_body get d st (EStr s)
       = Inr (say (Short_term_failed (upper s) (status_code r))
              (request (short_term_URL d (upper s)) st))"
      by (simp add: scan_ticker_def)
  qed
  have b: "tickers_loop get d st (EStr s # rest)
        = tickers_loop get d
            (say (Long_term_failed (upper s) (status_code r))
              (request (long_term_URL d (upper s)) (request (short_term_URL d (upper s)) st))) rest"
    if "fetch_last_price get (short_term_URL d (upper s)) = Inr (Price w)"
      "get (long_term_URL d (upper s)) = Inr r" "status_code r \<noteq> 200"
  proof (rule loop_step)
    from that(2,3)
    have "fetch_last_price get (long_term_URL d (upper s)) = Inr (Failed (status_code r))"
      by (simp add: fetch_last_price_def)
    with that(1) show "loop_body get d st (EStr s)
       = Inr (say (Long_term_failed (upper s) (status_code r))
              (request (long_term_URL d (upper s)) (request (short_term_URL d (upper s)) st)))"
      by (simp add: scan_ticker_def)
  qed
  have c: "tickers_loop get d st (EStr s # rest)
        = tickers_loop get d
            (say (Could_not_calculate (upper s))
              (request (long_term_URL d (upper s)) (request (short_term_URL d (upper s)) st))) rest"
    if "fetch_last_price get (short_term_URL d (upper s)) = Inr (Price w)"
      "fetch_last_price get (long_term_URL d (upper s)) = Inr (Price y)"
      "\<not> (py_truthy w \<and> py_truthy y)"
  proof (rule loop_step)
    from that(3) have "spread_ratio w y = Inr None" by (auto simp add: spread_ratio_def)
    with that(1,2) show "loop_body get d st (EStr s)
       = Inr (say (Could_not_calculate (upper s))
              (request (long_term_URL d (upper s)) (request (short_term_URL d (upper s)) st)))"
      by (simp add: scan_ticker_def)
  qed
  have e: "results_df (say m (request u (request v st))) = results_df st"
    "results_df (say m (request u st)) = results_df st"
    "printed (say m (request u (request v st))) = printed st @ [m]"
    "printed (say m (request u st)) = printed st @ [m]"
    by (simp_all add: say_def request_def)
  from a b c e show ?thesis by blast
qed

theorem skipped_ticker_isolated_witness:
  "refused_get (short_term_URL demo_dates (upper ''xyz'')) = Inr \<lparr>status_code = 404, body = None\<rparr>
   \<and> recorded (tickers_loop refused_get demo_dates init_state [EStr ''xyz'', EStr ''abc''])
       = Inr [''ABC'']
   \<and> reported (tickers_loop refused_get demo_dates init_state [EStr ''xyz'', EStr ''abc''])
       = Inr [Short_term_failed ''XYZ'' 404]
   \<and> fetch_last_price far_refused_get (short_term_URL demo_dates (upper ''xyz'')) = Inr (Price (JNum 2))
   \<and> far_refused_get (long_term_URL demo_dates (upper ''xyz'')) = Inr \<lparr>status_code = 404, body = None\<rparr>
   \<and> recorded (tickers_loop far_refused_get demo_dates init_state [EStr ''xyz'', EStr ''abc''])
       = Inr [''ABC'']
   \<and> reported (tickers_loop far_refused_get demo_dates init_state [EStr ''xyz'', EStr ''abc''])
       = Inr [Long_term_failed ''XYZ'' 404]
   \<and> fetch_last_price unpriced_get (short_term_URL demo_dates (upper ''xyz'')) = Inr (Price JNull)
   \<and> fetch_last_price unpriced_get (long_term_URL demo_dates (upper ''xyz'')) = Inr (Price (JNum 2))
   \<and> recorded (tickers_loop unpriced_get demo_dates init_state [EStr ''xyz'', EStr ''abc''])
       = Inr [''ABC'']
   \<and> reported (tickers_loop unpriced_get demo_dates init_state [EStr ''xyz'', EStr ''abc''])
       = Inr [Could_not_calculate ''XYZ'']"
proof -
  let ?r = "\<lparr>status_code = 404, body = None\<rparr>"
  let ?short = "short_term_URL demo_dates (upper ''xyz'')"
  let ?long = "long_term_URL demo_dates (upper ''xyz'')"
  have h1: "refused_get ?short = Inr ?r" by code_simp
  have n: "status_code ?r \<noteq> 200" by simp
  have h2: "fetch_last_price far_refused_get ?short = Inr (Price (JNum 2))"
    "far_refused_get ?long = Inr ?r"
    by code_simp+
  have h3: "fetch_last_price unpriced_get ?short = Inr (Price JNull)"
    "fetch_last_price unpriced_get ?long = Inr (Price (JNum 2))"
    by code_simp+
  have t: "\<not> (py_truthy JNull \<and> py_truthy (JNum 2))" by simp
  from skipped_ticker_isolated [of refused_get demo_dates "''xyz''" ?r init_state "[EStr ''abc'']"] h1 n
  have e1: "tickers_loop refused_get demo_dates init_state [EStr ''xyz'', EStr ''abc'']
        = tickers_loop refused_get demo_dates
            (say (Short_term_failed (upper ''xyz'') (status_code ?r)) (request ?short init_state))
            [EStr ''abc'']"
    by blast
  from skipped_ticker_isolated [of far_refused_get demo_dates "''xyz''" ?r init_state "[EStr ''abc'']" "JNum 2"]
    h2 n
  have e2: "tickers_loop far_refused_get demo_dates init_state [EStr ''xyz'', EStr ''abc'']
        = tickers_loop far_refused_get demo_dates
            (say (Long_term_failed (upper ''xyz'') (status_code ?r))
              (request ?long (request ?short init_state)))
            [EStr ''abc'']"
    by blast
  from skipped_ticker_isolated [of unpriced_get demo_dates "''xyz''" ?r init_state "[EStr ''abc'']"
      JNull "JNum 2"] h3 t
  have e3: "tickers_loop unpriced_get demo_dates init_state [EStr ''xyz'', EStr ''abc'']
        = tickers_loop unpriced_get demo_dates
            (say (Could_not_calculate (upper ''xyz''))
              (request ?long (request ?short init_state)))
            [EStr ''abc'']"
    by blast
  have v1: "recorded (tickers_loop refused_get demo_dates
            (say (Short_term_failed (upper ''xyz'') (status_code ?r)) (request ?short init_state))
            [EStr ''abc'']) = Inr [''ABC'']"
    "reported (tickers_loop refused_get demo_dates
            (say (Short_term_failed (upper ''xyz'') (status_code ?r)) (request ?short init_state))
            [EStr ''abc'']) = Inr [Short_term_failed ''XYZ'' 404]"
    by code_simp+
  have v2: "recorded (tickers_loop far_refused_get demo_dates
            (say (Long_term_failed (upper ''xyz'') (status_code ?r))
              (request ?long (request ?short init_state)))
            [EStr ''abc'']) = Inr [''ABC'']"
    "reported (tickers_loop far_refused_get demo_dates
            (say (Long_term_failed (upper ''xyz'') (status_code ?r))
              (request ?long (request ?short init_state)))
            [EStr ''abc'']) = Inr [Long_term_failed ''XYZ'' 404]"
    by code_simp+
  have v3: "recorded (tickers_loop unpriced_get demo_dates
            (say (Could_not_calculate (upper ''xyz''))
              (request ?long (request ?short init_state)))
            [EStr ''abc'']) = Inr [''ABC'']"
    "reported (tickers_loop unpriced_get demo_dates
            (say (Could_not_calculate (upper ''xyz''))
              (request ?long (request ?short init_state)))
            [EStr ''abc'']) = Inr [Could_not_calculate ''XYZ'']"
    by code_simp+
  from h1 h2 h3 v1 [folded e1] v2 [folded e2] v3 [folded e3] show ?thesis by blast
qed

lemma fetch_last_price_cong:
  "get url = get' url \<Longrightarrow> fetch_last_price get url = fetch_last_price get' url"
  by (simp add: fetch_last_price_def)

lemma scan_ticker_cong:
  assumes "get (short_term_URL d t) = get' (short_term_URL d t)"
    and "get (long_term_URL d t) = get' (long_term_URL d t)"
  shows "scan_ticker get d st t = scan_ticker get' d st t"
proof -
  have a: "fetch_last_price get (short_term_URL d t) = fetch_last_price get' (short_term_URL d t)"
    using assms(1) by (rule fetch_last_price_cong)
  have b: "fetch_last_price get (long_term_URL d t) = fetch_last_price get' (long_term_URL d t)"
    using assms(2) by (rule fetch_last_price_cong)
  show ?thesis unfolding scan_ticker_def a b ..
qed

lemma tickers_loop_cong:
  assumes "\<forall>t\<in>set (string_tickers es).
             get (short_term_URL d t) = get' (short_term_URL d t)
             \<and> get (long_term_URL d t) = get' (long_term_URL d t)"
  shows "tickers_loop get d st es = tickers_loop get' d st es"
  using assms
proof (induction es arbitrary: st)
  case Nil
  show ?case by simp
next
  case (Cons e es)
  show ?case
  proof (cases e)
    case (EStr s)
    with Cons.prems have "scan_ticker get d st (upper s) = scan_ticker get' d st (upper s)"
      by (intro scan_ticker_cong) simp_all
    moreover from Cons.prems EStr
    have "tickers_loop get d st1 es = tickers_loop get' d st1 es" for st1
      by (intro Cons.IH) simp
    ultimately show ?thesis using EStr by (simp split: sum.splits)
  next
    case (EInt n)
    with Cons show ?thesis by simp
  next
    case ENaN
    with Cons show ?thesis by simp
  qed
qed

text \<open>
  C10. Two runs on the same ticker list whose fetches answer alike on the URLs built for
  the tickers of the list reach the same state (rows, printed lines and requests, or the
  same exception) from any starting state, and produce the same final table.
\<close>

theorem scan_deterministic:
  assumes "\<forall>t\<in>set (string_tickers tickers). \<forall>d.
             get (short_term_URL d t) = get' (short_term_URL d t)
             \<and> get (long_term_URL d t) = get' (long_term_URL d t)"
  shows "tickers_loop get d st tickers = tickers_loop get' d st tickers
         \<and> sorted_results_df strftime get sort_values today tickers
             = sorted_results_df strftime get' sort_values today tickers"
proof -
  have eq: "tickers_loop get d' st' tickers = tickers_loop get' d' st' tickers" for d' st'
    using assms by (intro tickers_loop_cong) simp
  show ?thesis unfolding sorted_results_df_def eq by simp
qed

theorem scan_deterministic_witness:
  "list_all (\<lambda>t. \<forall>d. flat_get (short_term_URL d t) = other_get (short_term_URL d t)
                     \<and> flat_get (long_term_URL d t) = other_get (long_term_URL d t))
      (string_tickers mixed_tickers)
   \<and> flat_get ''ftp://elsewhere'' \<noteq> other_get ''ftp://elsewhere''
   \<and> sorted_results_df demo_strftime flat_get (sort_key Spread_Ratio) 739163 mixed_tickers
       = sorted_results_df demo_strftime other_get (sort_key Spread_Ratio) 739163 mixed_tickers"
proof -
  have h: "\<forall>t\<in>set (string_tickers mixed_tickers). \<forall>d.
       flat_get (short_term_URL d t) = other_get (short_term_URL d t)
       \<and> flat_get (long_term_URL d t) = other_get (long_term_URL d t)"
    by (simp add: other_get_def short_term_URL_def long_term_URL_def)
  have n: "flat_get ''ftp://elsewhere'' \<noteq> other_get ''ftp://elsewhere''"
    by (simp add: other_get_def flat_get_def answer_def)
  from h
  have l: "list_all (\<lambda>t. \<forall>d. flat_get (short_term_URL d t) = other_get (short_term_URL d t)
                     \<and> flat_get (long_term_URL d t) = other_get (long_term_URL d t))
      (string_tickers mixed_tickers)"
    by (simp only: list_all_iff)
  from scan_deterministic [OF h, of demo_dates init_state demo_strftime "sort_key Spread_Ratio" 739163]
    l n show ?thesis by blast
qed

text \<open>
  C8, as stated, fails: with a near price of -2 and a far price of 10 the final table has a
  row for the ticker, and its ratio, -5, is not positive.
\<close>

theorem negative_ratio_row_counterexample:
  "sorted_results_df demo_strftime negative_get (sort_key Spread_Ratio) 739163 [EStr ''a'']
     = Inr [\<lparr>Ticker = ''A'', Week_Last_Price = JNum (- 2), Year_Last_Price = JNum 10,
             Spread_Ratio = - 5\<rparr>]"
  by code_simp

text \<open>
  C8, amended. When the run returns a table, and sorting permutes the rows, the table has
  a row for a ticker exactly when the ticker is the upper-case form of a string entry, both
  of its fetches were answered with status 200, and both prices found are true (present
  and not zero). Every row holds the two prices found for its ticker, and its ratio is the
  far price divided by the near price.
\<close>

theorem final_rows_usable:
  assumes "date_ranges today = Inr w"
    and "sorted_results_df strftime get sort_values today tickers = Inr table"
    and "\<And>rows. mset (sort_values rows) = mset rows"
  shows "(\<forall>t. t \<in> set (map Ticker table)
              \<longleftrightarrow> t \<in> set (string_tickers tickers) \<and> usable get (format_dates strftime w) t)
         \<and> (\<forall>r\<in>set table. row_sound get (format_dates strftime w) r)"
proof -
  from assms(1,2) obtain st
    where run: "tickers_loop get (format_dates strftime w) init_state tickers = Inr st"
      and table: "table = sort_values (results_df st)"
    by (auto simp: sorted_results_df_def split: sum.splits)
  from tickers_loop_step [OF run] have new:
    "map Ticker (results_df st) = filter (usable get (format_dates strftime w)) (string_tickers tickers)"
    "\<forall>r\<in>set (results_df st). row_sound get (format_dates strftime w) r"
    by (auto simp: init_state_def)
  have "set table = set (results_df st)"
    using assms(3) [of "results_df st"] table by (metis set_mset_mset)
  then have s: "set (map Ticker table) = set (map Ticker (results_df st))" by simp
  from new(2) \<open>set table = set (results_df st)\<close>
  have b: "\<forall>r\<in>set table. row_sound get (format_dates strftime w) r" by simp
  have a: "\<forall>t. t \<in> set (map Ticker table)
              \<longleftrightarrow> t \<in> set (string_tickers tickers) \<and> usable get (format_dates strftime w) t"
    unfolding s new(1) by auto
  from a b show ?thesis by blast
qed

theorem final_rows_usable_witness:
  "date_ranges 739163 = Inr ((739169, 739174), (739493, 739763))
   \<and> sorted_results_df demo_strftime refused_get (sort_key Spread_Ratio) 739163
        [EStr ''xyz'', EStr ''abc'']
       = Inr [\<lparr>Ticker = ''ABC'', Week_Last_Price = JNum 2, Year_Last_Price = JNum 2,
               Spread_Ratio = 1\<rparr>]
   \<and> usable refused_get demo_dates ''ABC'' \<and> \<not> usable refused_get demo_dates ''XYZ''
   \<and> row_sound refused_get demo_dates
        \<lparr>Ticker = ''ABC'', Week_Last_Price = JNum 2, Year_Last_Price = JNum 2, Spread_Ratio = 1\<rparr>"
proof -
  have d: "date_ranges 739163 = Inr ((739169, 739174), (739493, 739763))"
    by (simp add: date_ranges_def plus_days_def max_ordinal_def)
  have t: "sorted_results_df demo_strftime refused_get (sort_key Spread_Ratio) 739163
        [EStr ''xyz'', EStr ''abc'']
       = Inr [\<lparr>Ticker = ''ABC'', Week_Last_Price = JNum 2, Year_Last_Price = JNum 2,
               Spread_Ratio = 1\<rparr>]"
    by code_simp
  have f: "format_dates demo_strftime ((739169, 739174), (739493, 739763)) = demo_dates"
    by (simp add: format_dates_def demo_strftime_def demo_dates_def)
  have st: "string_tickers [EStr ''xyz'', EStr ''abc''] = [''XYZ'', ''ABC'']"
    by code_simp
  note r = final_rows_usable [OF d t mset_sort, unfolded f st]
  from r have a: "t \<in> set (map Ticker [\<lparr>Ticker = ''ABC'', Week_Last_Price = JNum 2,
                     Year_Last_Price = JNum 2, Spread_Ratio = 1\<rparr>])
        \<longleftrightarrow> t \<in> set [''XYZ'', ''ABC''] \<and> usable refused_get demo_dates t" for t
    by blast
  from r have b: "row_sound refused_get demo_dates
        \<lparr>Ticker = ''ABC'', Week_Last_Price = JNum 2, Year_Last_Price = JNum 2, Spread_Ratio = 1\<rparr>"
    by simp
  from a [of "''ABC''"] have u1: "usable refused_get demo_dates ''ABC''" by simp
  from a [of "''XYZ''"] have u2: "\<not> usable refused_get demo_dates ''XYZ''" by simp
  from d t u1 u2 b show ?thesis by blast
qed

end
